theory Spec2Isabelle
  imports Main "HOL-Library.Log_Nat" "HOL-Library.Multiset" "HOL-Library.Sublist"
begin

section \<open>Python strings and values\<close>

text \<open>
  A Python \<open>str\<close> is modelled as a HOL \<open>string\<close>; the model is exact for ASCII text.
  \<open>py_isspace\<close> is \<open>str.isspace\<close> on the ASCII code points (tab, line feed, vertical tab,
  form feed, carriage return, the four separators 28 to 31, and the space), which are the
  characters \<open>str.strip()\<close> and \<open>str.split()\<close> remove; \<open>upper\<close> and \<open>lower\<close> are the ASCII
  case mappings.
\<close>

definition py_isspace :: "char \<Rightarrow> bool" where
  "py_isspace c = (of_char c \<in> {9, 10, 11, 12, 13, 28, 29, 30, 31, 32 :: nat})"

definition lstrip :: "string \<Rightarrow> string" where
  "lstrip s = dropWhile py_isspace s"

definition rstrip :: "string \<Rightarrow> string" where
  "rstrip s = rev (dropWhile py_isspace (rev s))"

definition strip :: "string \<Rightarrow> string" where
  "strip s = rstrip (lstrip s)"

definition upper_char :: "char \<Rightarrow> char" where
  "upper_char c = (let n = of_char c :: nat in if 97 \<le> n \<and> n \<le> 122 then char_of (n - 32) else c)"

definition lower_char :: "char \<Rightarrow> char" where
  "lower_char c = (let n = of_char c :: nat in if 65 \<le> n \<and> n \<le> 90 then char_of (n + 32) else c)"

definition upper :: "string \<Rightarrow> string" where
  "upper s = map upper_char s"

definition lower :: "string \<Rightarrow> string" where
  "lower s = map lower_char s"

text \<open>\<open>sep.join(xs)\<close>.\<close>

fun join :: "string \<Rightarrow> string list \<Rightarrow> string" where
  "join sep [] = []"
| "join sep [x] = x"
| "join sep (x # y # ys) = x @ sep @ join sep (y # ys)"

text \<open>The values a field of a record can hold: \<open>None\<close>, an \<open>int\<close> or a \<open>str\<close>.\<close>

datatype pyval = PNone | PInt int | PStr string

text \<open>
  The exceptions the modelled code can meet, each with what \<open>str(e)\<close> is built from.
  An \<open>OSError\<close> (\<open>PermissionError\<close>, \<open>NotADirectoryError\<close>, ...) carries errno, strerror
  and the file name; a \<open>LibraryError\<close> is whatever PyMuPDF, Pillow or pytesseract raise.
\<close>

datatype os_error = Errno nat string string

datatype py_exn =
    AttributeError string
  | OverflowError string
  | UnicodeDecodeError string
  | OSError os_error
  | LibraryError string

fun digit_char :: "nat \<Rightarrow> char" where
  "digit_char d = char_of (48 + d)"

fun show_nat_aux :: "nat \<Rightarrow> nat \<Rightarrow> string \<Rightarrow> string" where
  "show_nat_aux 0 n acc = acc"
| "show_nat_aux (Suc fuel) n acc =
     (if n < 10 then digit_char n # acc
      else show_nat_aux fuel (n div 10) (digit_char (n mod 10) # acc))"

text \<open>\<open>str(n)\<close> for a non-negative \<open>int\<close>: \<open>n\<close> has at most \<open>n + 1\<close> digits.\<close>

definition show_nat :: "nat \<Rightarrow> string" where
  "show_nat n = show_nat_aux (Suc n) n []"

fun os_error_str :: "os_error \<Rightarrow> string" where
  "os_error_str (Errno errno strerror filename) =
     ''[Errno '' @ show_nat errno @ ''] '' @ strerror @ '': '' @ [CHR 39] @ filename @ [CHR 39]"

fun exn_str :: "py_exn \<Rightarrow> string" where
  "exn_str (AttributeError m) = m"
| "exn_str (OverflowError m) = m"
| "exn_str (UnicodeDecodeError m) = m"
| "exn_str (LibraryError m) = m"
| "exn_str (OSError e) = os_error_str e"

section \<open>The built-in \<open>float\<close>\<close>

text \<open>
  \<open>float(s)\<close> either raises \<open>ValueError\<close> (here \<open>None\<close>) or returns a double: a finite
  one, which is a rational number, an infinity or a NaN.
\<close>

datatype pyfloat = Finite rat | PosInf | NegInf | NaN

definition digit_val :: "char \<Rightarrow> nat option" where
  "digit_val c = (let n = of_char c :: nat in if 48 \<le> n \<and> n \<le> 57 then Some (n - 48) else None)"

text \<open>The digits that follow the first digit of a \<open>digitpart\<close>: \<open>(["_"] digit)*\<close>.\<close>

fun digits_rest :: "string \<Rightarrow> nat list \<times> string" where
  "digits_rest [] = ([], [])"
| "digits_rest [c] =
     (case digit_val c of Some d \<Rightarrow> ([d], []) | None \<Rightarrow> ([], [c]))"
| "digits_rest (c # c' # cs) =
     (case digit_val c of
        Some d \<Rightarrow> (let (ds, r) = digits_rest (c' # cs) in (d # ds, r))
      | None \<Rightarrow>
          (if c = CHR ''_'' then
             (case digit_val c' of
                Some d \<Rightarrow> (let (ds, r) = digits_rest cs in (d # ds, r))
              | None \<Rightarrow> ([], c # c' # cs))
           else ([], c # c' # cs)))"

definition digitpart :: "string \<Rightarrow> (nat list \<times> string) option" where
  "digitpart s =
     (case s of
        [] \<Rightarrow> None
      | c # cs \<Rightarrow>
          (case digit_val c of
             None \<Rightarrow> None
           | Some d \<Rightarrow> (let (ds, r) = digits_rest cs in Some (d # ds, r))))"

text \<open>\<open>number ::= [digitpart] "." digitpart | digitpart ["."]\<close>: integer digits,
  fraction digits and the rest of the input.\<close>

definition parse_number :: "string \<Rightarrow> (nat list \<times> nat list \<times> string) option" where
  "parse_number s =
     (case digitpart s of
        Some (ip, r) \<Rightarrow>
          (case r of
             [] \<Rightarrow> Some (ip, [], [])
           | c # r' \<Rightarrow>
               (if c = CHR ''.'' then
                  (case digitpart r' of
                     Some (fp, r'') \<Rightarrow> Some (ip, fp, r'')
                   | None \<Rightarrow> Some (ip, [], r'))
                else Some (ip, [], r)))
      | None \<Rightarrow>
          (case s of
             [] \<Rightarrow> None
           | c # r' \<Rightarrow>
               (if c = CHR ''.'' then
                  (case digitpart r' of
                     Some (fp, r'') \<Rightarrow> Some ([], fp, r'')
                   | None \<Rightarrow> None)
                else None)))"

definition digits_value :: "nat list \<Rightarrow> nat" where
  "digits_value ds = foldl (\<lambda>a d. 10 * a + d) 0 ds"

text \<open>\<open>exponent ::= ("e" | "E") [sign] digitpart\<close>, up to the end of the input; no
  exponent is the exponent 0.\<close>

definition parse_exponent :: "string \<Rightarrow> int option" where
  "parse_exponent r =
     (case r of
        [] \<Rightarrow> Some 0
      | c # r' \<Rightarrow>
          (if c = CHR ''e'' \<or> c = CHR ''E'' then
             (case r' of
                [] \<Rightarrow> None
              | s # r'' \<Rightarrow>
                  (if s = CHR ''-'' then
                     (case digitpart r'' of
                        Some (ds, []) \<Rightarrow> Some (- int (digits_value ds))
                      | _ \<Rightarrow> None)
                   else
                     (case digitpart (if s = CHR ''+'' then r'' else r') of
                        Some (ds, []) \<Rightarrow> Some (int (digits_value ds))
                      | _ \<Rightarrow> None)))
           else None))"

definition pow10 :: "int \<Rightarrow> rat" where
  "pow10 k = (if 0 \<le> k then 10 ^ nat k else 1 / 10 ^ nat (- k))"

definition pow2 :: "int \<Rightarrow> rat" where
  "pow2 k = (if 0 \<le> k then 2 ^ nat k else 1 / 2 ^ nat (- k))"

text \<open>The nearest integer, ties to the even one.\<close>

definition round_half_even :: "rat \<Rightarrow> int" where
  "round_half_even x =
     (let f = \<lfloor>x\<rfloor>; d = x - of_int f
      in if d < 1 / 2 then f else if 1 / 2 < d then f + 1 else if even f then f else f + 1)"

text \<open>\<open>\<lfloor>log\<^sub>2 a\<rfloor>\<close> for a positive rational \<open>a\<close>.\<close>

definition binade :: "rat \<Rightarrow> int" where
  "binade a =
     (let (p, q) = quotient_of a; k = bitlen p - bitlen q
      in if pow2 k \<le> a then k else k - 1)"

text \<open>
  The double nearest to a positive rational (IEEE 754 binary64, round to nearest, ties to
  even): 53 significant bits, subnormals below \<open>2\<^sup>-\<^sup>1\<^sup>0\<^sup>2\<^sup>2\<close>, and \<open>None\<close> for a value that
  rounds past the largest double.
\<close>

definition nearest_double :: "rat \<Rightarrow> rat option" where
  "nearest_double a =
     (let e = max (binade a) (- 1022);
          ulp = pow2 (e - 52);
          v = of_int (round_half_even (a / ulp)) * ulp
      in if pow2 1024 \<le> v then None else Some v)"

definition to_double :: "bool \<Rightarrow> rat \<Rightarrow> pyfloat" where
  "to_double negative a =
     (if a = 0 then Finite 0
      else (case nearest_double a of
              None \<Rightarrow> (if negative then NegInf else PosInf)
            | Some v \<Rightarrow> Finite (if negative then - v else v)))"

definition parse_abs_float :: "bool \<Rightarrow> string \<Rightarrow> pyfloat option" where
  "parse_abs_float negative s =
     (if lower s = ''inf'' \<or> lower s = ''infinity'' then Some (if negative then NegInf else PosInf)
      else if lower s = ''nan'' then Some NaN
      else
        (case parse_number s of
           None \<Rightarrow> None
         | Some (ip, fp, r) \<Rightarrow>
             (case parse_exponent r of
                None \<Rightarrow> None
              | Some ex \<Rightarrow>
                  Some (to_double negative
                    (of_nat (digits_value (ip @ fp)) * pow10 (ex - int (length fp)))))))"

text \<open>\<open>float(s)\<close> for a \<open>str\<close>: surrounding whitespace is ignored, then
  \<open>[sign] (floatnumber | infinity | nan)\<close>.\<close>

definition py_float :: "string \<Rightarrow> pyfloat option" where
  "py_float s =
     (case strip s of
        [] \<Rightarrow> None
      | c # cs \<Rightarrow>
          (if c = CHR ''-'' then parse_abs_float True cs
           else if c = CHR ''+'' then parse_abs_float False cs
           else parse_abs_float False (c # cs)))"

text \<open>\<open>int(x)\<close> of a finite float truncates towards zero.\<close>

definition py_trunc :: "rat \<Rightarrow> int" where
  "py_trunc x = (if 0 \<le> x then \<lfloor>x\<rfloor> else \<lceil>x\<rceil>)"

section \<open>\<open>utils/data_transformer.py\<close>\<close>

text \<open>
  \<open>DataTransformer.round_age\<close>. \<open>float\<close> raising \<open>ValueError\<close> and \<open>int\<close> of a NaN raising
  \<open>ValueError\<close> are caught and give \<open>None\<close>; \<open>int\<close> of an infinity raises \<open>OverflowError\<close>,
  which the \<open>except (ValueError, TypeError)\<close> clause does not catch. For a finite double
  \<open>age_float - int(age_float)\<close> is exact, so the arithmetic is that of the rationals.
\<close>

definition round_age :: "string \<Rightarrow> py_exn + int option" where
  "round_age age_str =
     (case py_float (strip age_str) of
        None \<Rightarrow> Inr None
      | Some NaN \<Rightarrow> Inr None
      | Some PosInf \<Rightarrow> Inl (OverflowError ''cannot convert float infinity to integer'')
      | Some NegInf \<Rightarrow> Inl (OverflowError ''cannot convert float infinity to integer'')
      | Some (Finite age_float) \<Rightarrow>
          (let decimal_part = age_float - of_int (py_trunc age_float)
           in if decimal_part > 1 / 2 then Inr (Some \<lceil>age_float\<rceil>)
              else Inr (Some (py_trunc age_float))))"

definition female_terms :: "string list" where
  "female_terms = [''BAYAN'', ''K'', ''KADIN'', ''F'', ''FEMALE'']"

definition male_terms :: "string list" where
  "male_terms = [''BAY'', ''E'', ''ERKEK'', ''M'', ''MALE'']"

text \<open>\<open>DataTransformer.map_turkish_gender\<close>.\<close>

definition map_turkish_gender :: "string \<Rightarrow> string" where
  "map_turkish_gender gender_str =
     (let gender_clean = upper (strip gender_str)
      in if gender_clean \<in> set female_terms then ''Female''
         else if gender_clean \<in> set male_terms then ''Male''
         else strip gender_str)"

text \<open>
  \<open>DataTransformer.transform_value\<close>. The value is any Python value and the transform
  name a \<open>str\<close> or \<open>None\<close>; \<open>not transform_type\<close> holds for \<open>None\<close> and for the empty
  string. The two named transforms call \<open>.strip()\<close> on the value, which raises
  \<open>AttributeError\<close> when it is not a \<open>str\<close>.
\<close>

definition transform_value :: "pyval \<Rightarrow> string option \<Rightarrow> py_exn + pyval" where
  "transform_value v transform_type =
     (if transform_type = Some ''age_round'' then
        (case v of
           PStr s \<Rightarrow>
             (case round_age s of
                Inl e \<Rightarrow> Inl e
              | Inr None \<Rightarrow> Inr PNone
              | Inr (Some n) \<Rightarrow> Inr (PInt n))
         | _ \<Rightarrow> Inl (AttributeError ''object has no attribute strip''))
      else if transform_type = Some ''gender_turkish'' then
        (case v of
           PStr s \<Rightarrow> Inr (PStr (map_turkish_gender s))
         | _ \<Rightarrow> Inl (AttributeError ''object has no attribute strip''))
      else if transform_type = Some ''none'' \<or> transform_type = None \<or> transform_type = Some [] then
        (case v of PStr s \<Rightarrow> Inr (PStr (strip s)) | _ \<Rightarrow> Inr v)
      else Inr v)"

text \<open>
  The regular-expression engine is Python's \<open>re\<close> module, taken as a parameter:
  \<open>re.search(pattern, text, flags)\<close> raises \<open>re.error\<close> for a pattern that does not
  compile, finds no match, or returns the first match, of which the code reads
  \<open>match.groups()\<close>: one entry per capture group of the pattern, \<open>None\<close> for a group
  that took no part in the match.
\<close>

datatype re_flag = IGNORECASE | MULTILINE

datatype re_outcome = ReError string | NoMatch | Match "string option list"

type_synonym re_engine = "string \<Rightarrow> string \<Rightarrow> re_flag set \<Rightarrow> re_outcome"

text \<open>
  \<open>DataTransformer.extract_with_pattern\<close>. \<open>match.group(1).strip()\<close> raises
  \<open>AttributeError\<close> when group 1 is \<open>None\<close>, and the \<open>except re.error\<close> clause does not
  catch it.
\<close>

definition extract_with_pattern :: "re_engine \<Rightarrow> string \<Rightarrow> string \<Rightarrow> py_exn + string option" where
  "extract_with_pattern re_search text pattern =
     (case re_search pattern text {IGNORECASE, MULTILINE} of
        ReError m \<Rightarrow> Inr None
      | NoMatch \<Rightarrow> Inr None
      | Match groups \<Rightarrow>
          (case groups of
             [] \<Rightarrow> Inr None
           | group1 # _ \<Rightarrow>
               (case group1 of
                  None \<Rightarrow> Inl (AttributeError ''object has no attribute strip'')
                | Some v \<Rightarrow> Inr (Some (strip v)))))"

section \<open>\<open>core/text_extractor.py\<close>: text of a PDF\<close>

text \<open>
  A PDF is seen through PyMuPDF: \<open>fitz.open\<close> and the \<open>get_text()\<close> of each page in
  document order either give the list of the pages' texts or raise.
\<close>

type_synonym pdf_document = "py_exn + string list"

definition newline :: string where
  "newline = [CHR 0x0A]"

text \<open>\<open>TextExtractor._extract_from_pdf\<close>.\<close>

definition extract_from_pdf :: "pdf_document \<Rightarrow> string option" where
  "extract_from_pdf doc =
     (case doc of
        Inl e \<Rightarrow> None
      | Inr pages \<Rightarrow>
          (let text_content = filter (\<lambda>text. strip text \<noteq> []) pages;
               full_text = join newline text_content
           in if full_text \<noteq> [] then Some (strip full_text) else None))"

text \<open>\<open>ExtractionEngine._extract_pdf_fallback\<close>: the same steps, written out again in
  the engine.\<close>

definition extract_pdf_fallback :: "pdf_document \<Rightarrow> string option" where
  "extract_pdf_fallback doc =
     (case doc of
        Inl e \<Rightarrow> None
      | Inr pages \<Rightarrow>
          (let text_content = filter (\<lambda>text. strip text \<noteq> []) pages;
               full_text = join newline text_content
           in if full_text \<noteq> [] then Some (strip full_text) else None))"


section \<open>The environment: file system, OCR engine, PDF library\<close>

datatype file_read = FileNotFoundError | ReadError py_exn | Lines "string list"

text \<open>
  What the code asks of its environment: \<open>os.path.exists\<close>, \<open>os.path.isdir\<close>,
  \<open>os.listdir\<close> (which raises \<open>OSError\<close> when it fails), opening a text file and iterating over its
  lines, OCR of an image file under a Tesseract configuration (opening the image,
  converting it and \<open>pytesseract.image_to_string\<close>), and the pages of a PDF.
\<close>

record world =
  path_exists :: "string \<Rightarrow> bool"
  path_isdir :: "string \<Rightarrow> bool"
  listdir :: "string \<Rightarrow> os_error + string list"
  read_lines :: "string \<Rightarrow> file_read"
  image_to_string :: "string \<Rightarrow> string \<Rightarrow> py_exn + string"
  pdf_pages :: "string \<Rightarrow> pdf_document"

text \<open>\<open>os.path.join\<close> of two components (POSIX).\<close>

definition os_path_join :: "string \<Rightarrow> string \<Rightarrow> string" where
  "os_path_join a b =
     (if b \<noteq> [] \<and> hd b = CHR ''/'' then b
      else if a = [] \<or> last a = CHR ''/'' then a @ b
      else a @ ''/'' @ b)"

text \<open>\<open>s.split()\<close>: the maximal runs of characters that are not whitespace.\<close>

fun split_ws_aux :: "string \<Rightarrow> string \<Rightarrow> string list" where
  "split_ws_aux cur [] = (if cur = [] then [] else [rev cur])"
| "split_ws_aux cur (c # cs) =
     (if py_isspace c then (if cur = [] then split_ws_aux [] cs else rev cur # split_ws_aux [] cs)
      else split_ws_aux (c # cur) cs)"

definition split_ws :: "string \<Rightarrow> string list" where
  "split_ws s = split_ws_aux [] s"

text \<open>\<open>s.split(sep)\<close> for a one-character separator.\<close>

fun split_on_aux :: "char \<Rightarrow> string \<Rightarrow> string \<Rightarrow> string list" where
  "split_on_aux sep cur [] = [rev cur]"
| "split_on_aux sep cur (c # cs) =
     (if c = sep then rev cur # split_on_aux sep [] cs else split_on_aux sep (c # cur) cs)"

definition split_on :: "char \<Rightarrow> string \<Rightarrow> string list" where
  "split_on sep s = split_on_aux sep [] s"

text \<open>\<open>s.isdigit()\<close>: at least one character, all of them digits.\<close>

definition isdigit :: "string \<Rightarrow> bool" where
  "isdigit s = (s \<noteq> [] \<and> list_all (\<lambda>c. digit_val c \<noteq> None) s)"

text \<open>
  \<open>Path(p).suffix\<close>: the name is the last component of the path (\<open>pathlib\<close> drops empty
  and \<open>"."\<close> components); the suffix starts at the last dot of the name, unless that dot is
  the first or the last character of the name.
\<close>

definition path_name :: "string \<Rightarrow> string" where
  "path_name p =
     (case rev (filter (\<lambda>part. part \<noteq> [] \<and> part \<noteq> ''.'') (split_on (CHR ''/'') p)) of
        [] \<Rightarrow> []
      | n # _ \<Rightarrow> n)"

definition path_suffix :: "string \<Rightarrow> string" where
  "path_suffix p =
     (let name = path_name p;
          ext = rev (takeWhile (\<lambda>c. c \<noteq> CHR ''.'') (rev name));
          stem = rev (dropWhile (\<lambda>c. c \<noteq> CHR ''.'') (rev name))
      in if 1 < length stem \<and> ext \<noteq> [] then CHR ''.'' # ext else [])"

section \<open>\<open>utils/file_navigator.py\<close>\<close>

type_synonym subject_folder = "string \<times> string \<times> string"

text \<open>\<open>FileSystemNavigator.parse_folder_name\<close>.\<close>

definition parse_folder_name :: "string \<Rightarrow> string \<times> string" where
  "parse_folder_name folder_name =
     (if CHR ''_'' \<in> set folder_name then
        (let part0 = takeWhile (\<lambda>c. c \<noteq> CHR ''_'') folder_name;
             part1 = tl (dropWhile (\<lambda>c. c \<noteq> CHR ''_'') folder_name)
         in (strip part0, join '' '' (split_ws part1)))
      else (strip folder_name, []))"

text \<open>The body of the loop of \<open>get_subject_folders\<close>, for one directory entry.\<close>

definition subject_folder_of :: "world \<Rightarrow> string \<Rightarrow> string list \<Rightarrow> string \<Rightarrow> subject_folder option" where
  "subject_folder_of w root_folder subject_list item =
     (let folder_path = os_path_join root_folder item
      in if path_isdir w folder_path then
           (let (subject_id, patient_name) = parse_folder_name item
            in if subject_id \<noteq> [] \<and> subject_id \<in> set subject_list
               then Some (subject_id, patient_name, folder_path) else None)
         else None)"

text \<open>\<open>FileSystemNavigator.get_subject_folders\<close>; an \<open>OSError\<close> of \<open>os.listdir\<close>
  propagates.\<close>

definition get_subject_folders :: "world \<Rightarrow> string \<Rightarrow> string list \<Rightarrow> os_error + subject_folder list" where
  "get_subject_folders w root_folder subject_list =
     (if \<not> path_exists w root_folder then Inr []
      else (case listdir w root_folder of
              Inl e \<Rightarrow> Inl e
            | Inr items \<Rightarrow> Inr (List.map_filter (subject_folder_of w root_folder subject_list) items)))"

text \<open>The body of the loop of \<open>find_target_files\<close>, for one directory entry.\<close>

definition target_file_of :: "world \<Rightarrow> string \<Rightarrow> string \<Rightarrow> string \<Rightarrow> string option" where
  "target_file_of w subject_folder target_filename item =
     (let subfolder_path = os_path_join subject_folder item
      in if path_isdir w subfolder_path \<and> isdigit item then
           (let target_file_path = os_path_join subfolder_path target_filename
            in if path_exists w target_file_path then Some target_file_path else None)
         else None)"

text \<open>\<open>FileSystemNavigator.find_target_files\<close>.\<close>

definition find_target_files :: "world \<Rightarrow> string \<Rightarrow> string \<Rightarrow> os_error + string list" where
  "find_target_files w subject_folder target_filename =
     (if \<not> path_exists w subject_folder then Inr []
      else (case listdir w subject_folder of
              Inl e \<Rightarrow> Inl e
            | Inr items \<Rightarrow> Inr (List.map_filter (target_file_of w subject_folder target_filename) items)))"

text \<open>\<open>FileSystemNavigator.load_subject_list\<close>: only \<open>FileNotFoundError\<close> is caught.\<close>

definition load_subject_list :: "world \<Rightarrow> string \<Rightarrow> py_exn + string list" where
  "load_subject_list w subject_list_file =
     (case read_lines w subject_list_file of
        FileNotFoundError \<Rightarrow> Inr []
      | ReadError e \<Rightarrow> Inl e
      | Lines ls \<Rightarrow> Inr (filter (\<lambda>subject_id. subject_id \<noteq> []) (map strip ls)))"

definition image_formats :: "string list" where
  "image_formats = [''.jpg'', ''.jpeg'', ''.png'', ''.tiff'', ''.bmp'', ''.gif'']"

definition pdf_formats :: "string list" where
  "pdf_formats = [''.pdf'']"

text \<open>\<open>FileSystemNavigator.get_file_type\<close>.\<close>

definition get_file_type :: "string \<Rightarrow> string" where
  "get_file_type file_path =
     (let ext = lower (path_suffix file_path)
      in if ext \<in> set image_formats then ''image''
         else if ext \<in> set pdf_formats then ''pdf''
         else ''unknown'')"

section \<open>\<open>core/text_extractor.py\<close>: the extractor\<close>

text \<open>
  The probe of the Tesseract installation made by the constructor of \<open>TextExtractor\<close>:
  querying the version and the language packs either raises or gives the languages.
\<close>

datatype tesseract_probe = ProbeRaises | Languages "string list"

text \<open>
  \<open>TextExtractor.__init__\<close>: an extractor, which is its Tesseract configuration, or
  \<open>None\<close> for \<open>TesseractNotFoundError\<close> (the probe raised, or English is not installed).
\<close>

definition text_extractor_init :: "tesseract_probe \<Rightarrow> string \<Rightarrow> string option" where
  "text_extractor_init probe tesseract_config =
     (case probe of
        ProbeRaises \<Rightarrow> None
      | Languages languages \<Rightarrow> if ''eng'' \<in> set languages then Some tesseract_config else None)"

text \<open>\<open>TextExtractor._extract_from_image\<close>: every exception gives \<open>None\<close>.\<close>

definition extract_from_image :: "world \<Rightarrow> string \<Rightarrow> string \<Rightarrow> string option" where
  "extract_from_image w tesseract_config image_path =
     (case image_to_string w image_path tesseract_config of
        Inl e \<Rightarrow> None
      | Inr text \<Rightarrow> if text \<noteq> [] then Some (strip text) else None)"

text \<open>\<open>TextExtractor.extract_text\<close>.\<close>

definition extract_text :: "world \<Rightarrow> string \<Rightarrow> string \<Rightarrow> string \<Rightarrow> string option" where
  "extract_text w tesseract_config file_path file_type =
     (if file_type = ''image'' then extract_from_image w tesseract_config file_path
      else if file_type = ''pdf'' then extract_from_pdf (pdf_pages w file_path)
      else None)"

section \<open>\<open>core/extraction_engine.py\<close>\<close>

text \<open>
  The engine after \<open>ExtractionEngine.__init__\<close>: the text extractor (\<open>None\<close> when its
  constructor raised \<open>TesseractNotFoundError\<close>) and the flag set with it.
\<close>

record engine =
  text_extractor :: "string option"
  tesseract_available :: bool

definition engine_init :: "tesseract_probe \<Rightarrow> string \<Rightarrow> engine" where
  "engine_init probe tesseract_config =
     (case text_extractor_init probe tesseract_config of
        Some extractor \<Rightarrow> \<lparr>text_extractor = Some extractor, tesseract_available = True\<rparr>
      | None \<Rightarrow> \<lparr>text_extractor = None, tesseract_available = False\<rparr>)"

text \<open>The dictionary built for one subject by \<open>_process_single_subject\<close>.\<close>

record subject_result =
  subject_id :: string
  patient_name :: string
  file_path :: string
  extracted_text :: "string option"
  extraction_status :: string
  error :: "string option"

text \<open>The attempts to extract text that processing a subject makes, in order.\<close>

datatype extraction_call = OcrImage string | PdfNative string | PdfFallback string

text \<open>
  The step "Extract text" of \<open>_process_single_subject\<close>: the \<open>if\<close>/\<open>elif\<close>/\<open>else\<close> that
  picks the extractor for the target file, with the attempt it makes.
\<close>

definition extract_target :: "engine \<Rightarrow> world \<Rightarrow> string \<Rightarrow> string \<Rightarrow> string option \<times> extraction_call list" where
  "extract_target eng w target_file file_type =
     (case (if file_type = ''image'' then text_extractor eng else None) of
        Some extractor \<Rightarrow> (extract_text w extractor target_file file_type, [OcrImage target_file])
      | None \<Rightarrow>
          (if file_type = ''pdf'' then
             (case text_extractor eng of
                Some extractor \<Rightarrow> (extract_text w extractor target_file file_type, [PdfNative target_file])
              | None \<Rightarrow> (extract_pdf_fallback (pdf_pages w target_file), [PdfFallback target_file]))
           else (None, [])))"

text \<open>
  \<open>ExtractionEngine._process_single_subject\<close>, with the extraction attempts it made.
  Inside its \<open>try\<close> only \<open>find_target_files\<close> can raise; the handler stores \<open>str(e)\<close>.
\<close>

definition process_single_subject ::
    "engine \<Rightarrow> world \<Rightarrow> string \<Rightarrow> string \<Rightarrow> string \<Rightarrow> string \<Rightarrow> subject_result \<times> extraction_call list" where
  "process_single_subject eng w sid pname folder_path target_filename =
     (let result = \<lparr>subject_id = sid, patient_name = pname, file_path = [],
                     extracted_text = None, extraction_status = ''Failed'', error = None\<rparr>
      in case find_target_files w folder_path target_filename of
           Inl e \<Rightarrow> (result\<lparr>error := Some (exn_str (OSError e))\<rparr>, [])
         | Inr target_files \<Rightarrow>
             (case target_files of
                [] \<Rightarrow>
                  (result\<lparr>error := Some (''Target file '' @ [CHR 39] @ target_filename @ [CHR 39] @ '' not found'')\<rparr>, [])
              | target_file # _ \<Rightarrow>
                  (let result = result\<lparr>file_path := target_file\<rparr>;
                       file_type = get_file_type target_file
                   in if file_type = ''unknown'' then
                        (result\<lparr>error := Some (''Unsupported file type: '' @ target_file)\<rparr>, [])
                      else if file_type = ''image'' \<and> \<not> tesseract_available eng then
                        (result\<lparr>error := Some ''Tesseract OCR not available for image text extraction''\<rparr>, [])
                      else
                        (let (text, calls) = extract_target eng w target_file file_type
                         in if text \<noteq> None \<and> text \<noteq> Some [] then
                              (result\<lparr>extracted_text := text, extraction_status := ''Success''\<rparr>, calls)
                            else (result\<lparr>error := Some ''Failed to extract text from file''\<rparr>, calls)))))"

text \<open>
  A submitted task: the subject it was submitted for, what \<open>future.result()\<close> gives (the
  task's result, or the exception it raised) and the extraction attempts of the task.
\<close>

type_synonym future = "(string \<times> string) \<times> (py_exn + subject_result) \<times> extraction_call list"

text \<open>The body of the loop over the completed tasks in \<open>_process_subjects\<close>.\<close>

definition collect_future :: "future \<Rightarrow> subject_result" where
  "collect_future fut =
     (case fut of
        ((sid, pname), Inr result, calls) \<Rightarrow> result
      | ((sid, pname), Inl e, calls) \<Rightarrow>
          \<lparr>subject_id = sid, patient_name = pname, file_path = [], extracted_text = None,
           extraction_status = ''Failed'', error = Some (exn_str e)\<rparr>)"

text \<open>
  \<open>ExtractionEngine._process_subjects\<close>, without a progress callback (the default).
  Every subject is submitted to the pool of \<open>max_workers\<close> threads, a positive number (4 by
  default) that only bounds how many tasks run at a time; \<open>as_completed\<close> yields the tasks
  in the order they finish, which is a parameter here; the loop, which runs in the calling
  thread, appends one record per yielded task.
\<close>

definition process_subjects ::
    "engine \<Rightarrow> world \<Rightarrow> (future list \<Rightarrow> future list) \<Rightarrow> subject_folder list \<Rightarrow> string
       \<Rightarrow> subject_result list \<times> extraction_call list" where
  "process_subjects eng w as_completed subject_folders target_filename =
     (let future_to_subject =
            map (\<lambda>(sid, pname, folder_path).
                   (let (result, calls) = process_single_subject eng w sid pname folder_path target_filename
                    in ((sid, pname), Inr result, calls)))
                subject_folders
      in (map collect_future (as_completed future_to_subject),
          concat (map (\<lambda>fut. snd (snd fut)) future_to_subject)))"

text \<open>The dictionary returned by \<open>extract_data\<close>; the keys \<open>missing_subjects\<close> and
  \<open>warnings\<close> are present only when subjects are missing.\<close>

record extraction_results =
  success :: bool
  data :: "subject_result list"
  total_subjects :: nat
  processed_subjects :: nat
  successful_extractions :: nat
  failed_extractions :: int
  errors :: "string list"
  missing_subjects :: "string list option"
  warnings :: "string list option"

text \<open>\<open>bool(v)\<close> and \<open>str(v)\<close> of a value.\<close>

fun py_truthy :: "pyval \<Rightarrow> bool" where
  "py_truthy PNone = False"
| "py_truthy (PInt n) = (n \<noteq> 0)"
| "py_truthy (PStr s) = (s \<noteq> [])"

fun py_str :: "pyval \<Rightarrow> string" where
  "py_str PNone = ''None''"
| "py_str (PInt n) = (if n < 0 then CHR ''-'' # show_nat (nat (- n)) else show_nat (nat n))"
| "py_str (PStr s) = s"

definition opt_val :: "string option \<Rightarrow> pyval" where
  "opt_val v = (case v of None \<Rightarrow> PNone | Some s \<Rightarrow> PStr s)"

text \<open>\<open>item.items()\<close> of a subject's dictionary, in insertion order.\<close>

definition result_items :: "subject_result \<Rightarrow> (string \<times> pyval) list" where
  "result_items item =
     [(''subject_id'', PStr (subject_id item)),
      (''patient_name'', PStr (patient_name item)),
      (''file_path'', PStr (file_path item)),
      (''extracted_text'', opt_val (extracted_text item)),
      (''extraction_status'', PStr (extraction_status item)),
      (''error'', opt_val (error item))]"

text \<open>The test \<open>has_extracted_data\<close> in the counting loop of \<open>extract_data\<close>.\<close>

definition has_extracted_data :: "subject_result \<Rightarrow> bool" where
  "has_extracted_data item =
     list_ex (\<lambda>(key, v). key \<notin> set [''subject_id'', ''name''] \<and> py_truthy v \<and> strip (py_str v) \<noteq> [])
       (result_items item)"

definition initial_results :: extraction_results where
  "initial_results =
     \<lparr>success = False, data = [], total_subjects = 0, processed_subjects = 0,
      successful_extractions = 0, failed_extractions = 0, errors = [],
      missing_subjects = None, warnings = None\<rparr>"

text \<open>
  \<open>ExtractionEngine.extract_data\<close>, without a progress callback, with the extraction
  attempts of the run. An exception of \<open>load_subject_list\<close> or \<open>get_subject_folders\<close> is
  caught by the \<open>except Exception\<close> clause, which records it in \<open>errors\<close>.
\<close>

definition extract_data ::
    "engine \<Rightarrow> world \<Rightarrow> (future list \<Rightarrow> future list) \<Rightarrow> string \<Rightarrow> string \<Rightarrow> string
       \<Rightarrow> extraction_results \<times> extraction_call list" where
  "extract_data eng w as_completed root_folder subject_list_file target_filename =
     (let results = initial_results
      in case load_subject_list w subject_list_file of
           Inl e \<Rightarrow> (results\<lparr>errors := errors results @ [''Extraction error: '' @ exn_str e]\<rparr>, [])
         | Inr subject_list \<Rightarrow>
             if subject_list = [] then
               (results\<lparr>errors := errors results @ [''No subjects found in subject list file'']\<rparr>, [])
             else
               (case get_subject_folders w root_folder subject_list of
                  Inl e \<Rightarrow>
                    (results\<lparr>errors := errors results @ [''Extraction error: '' @ exn_str (OSError e)]\<rparr>, [])
                | Inr subject_folders \<Rightarrow>
                    (let results = results\<lparr>total_subjects := length subject_folders\<rparr>;
                         found_subject_ids = set (map fst subject_folders);
                         missing = filter (\<lambda>sid. sid \<notin> found_subject_ids) subject_list;
                         results =
                           (if missing \<noteq> [] then
                              results\<lparr>missing_subjects := Some missing,
                                warnings := Some ((case warnings results of None \<Rightarrow> [] | Some ws \<Rightarrow> ws) @
                                  [''Missing '' @ show_nat (length missing) @ '' subject folders: '' @
                                   join '', '' missing])\<rparr>
                            else results)
                     in if subject_folders = [] then
                          (if missing \<noteq> [] then
                             (results\<lparr>errors := errors results @
                                [''No subject folders found. Missing: '' @ join '', '' missing]\<rparr>, [])
                           else
                             (results\<lparr>errors := errors results @
                                [''No subject folders found matching the subject list'']\<rparr>, []))
                        else
                          (let (extraction_data, calls) =
                                 process_subjects eng w as_completed subject_folders target_filename;
                               results = results\<lparr>data := extraction_data,
                                           processed_subjects := length extraction_data\<rparr>;
                               successful_count = length (filter has_extracted_data extraction_data);
                               results = results\<lparr>successful_extractions := successful_count\<rparr>;
                               results = results\<lparr>failed_extractions :=
                                           int (processed_subjects results) - int (successful_extractions results)\<rparr>
                           in (results\<lparr>success := True\<rparr>, calls)))))"

section \<open>\<open>core/data_processor.py\<close>\<close>

text \<open>An extraction rule; a key missing from the rule's dictionary is its default
  (\<open>''\<close> for the name and the pattern, \<open>'none'\<close> for the transform).\<close>

record extraction_rule =
  rule_name :: string
  rule_pattern :: string
  rule_transform :: "string option"

text \<open>A row: a dictionary in insertion order.\<close>

type_synonym row = "(string \<times> pyval) list"

fun dict_set :: "row \<Rightarrow> string \<Rightarrow> pyval \<Rightarrow> row" where
  "dict_set [] k v = [(k, v)]"
| "dict_set ((k', v') # kvs) k v = (if k' = k then (k, v) # kvs else (k', v') # dict_set kvs k v)"

text \<open>The loop over the rules in \<open>process_extracted_data\<close>, for one record's text; an
  exception of the pattern extraction or of the transform propagates.\<close>

fun apply_rules :: "re_engine \<Rightarrow> string \<Rightarrow> extraction_rule list \<Rightarrow> row \<Rightarrow> py_exn + row" where
  "apply_rules re_search text [] processed_record = Inr processed_record"
| "apply_rules re_search text (rule # rules) processed_record =
     (if rule_name rule \<noteq> [] \<and> rule_pattern rule \<noteq> [] then
        (case extract_with_pattern re_search text (rule_pattern rule) of
           Inl e \<Rightarrow> Inl e
         | Inr None \<Rightarrow> apply_rules re_search text rules (dict_set processed_record (rule_name rule) PNone)
         | Inr (Some raw_value) \<Rightarrow>
             (case transform_value (PStr raw_value) (rule_transform rule) of
                Inl e \<Rightarrow> Inl e
              | Inr processed_value \<Rightarrow>
                  apply_rules re_search text rules (dict_set processed_record (rule_name rule) processed_value)))
      else apply_rules re_search text rules processed_record)"

text \<open>The body of the loop over the records in \<open>process_extracted_data\<close>.\<close>

definition process_record :: "re_engine \<Rightarrow> extraction_rule list \<Rightarrow> subject_result \<Rightarrow> py_exn + row" where
  "process_record re_search rules raw_record =
     (let processed_record = [(''Subject ID'', PStr (subject_id raw_record)), (''Name'', PStr (patient_name raw_record))]
      in case extracted_text raw_record of
           None \<Rightarrow> Inr processed_record
         | Some text \<Rightarrow>
             if text \<noteq> [] then apply_rules re_search text rules processed_record
             else Inr processed_record)"

text \<open>\<open>DataProcessor.process_extracted_data\<close>: the rows of the data frame.\<close>

fun process_extracted_data :: "re_engine \<Rightarrow> extraction_rule list \<Rightarrow> subject_result list \<Rightarrow> py_exn + row list" where
  "process_extracted_data re_search rules [] = Inr []"
| "process_extracted_data re_search rules (raw_record # raw_data) =
     (case process_record re_search rules raw_record of
        Inl e \<Rightarrow> Inl e
      | Inr processed_record \<Rightarrow>
          (case process_extracted_data re_search rules raw_data of
             Inl e \<Rightarrow> Inl e
           | Inr processed_data \<Rightarrow> Inr (processed_record # processed_data)))"

text \<open>
  The test \<open>has_data\<close> of \<open>DataProcessor._add_summary_sheet\<close> on a row: some column other
  than the identity columns holds a value that is not missing and not blank.
\<close>

definition has_data :: "row \<Rightarrow> bool" where
  "has_data r =
     list_ex (\<lambda>(col, v). col \<notin> set [''Subject ID'', ''Name''] \<and> v \<noteq> PNone \<and> strip (py_str v) \<noteq> []) r"

text \<open>The count \<open>successful_extractions\<close> of \<open>_add_summary_sheet\<close>.\<close>

definition summary_successful_extractions :: "row list \<Rightarrow> nat" where
  "summary_successful_extractions df = length (filter has_data df)"

section \<open>An example tree\<close>

text \<open>
  A root folder \<open>/data\<close> with the subject folders \<open>001_Jane  Doe\<close> (visit folder \<open>1\<close> with
  \<open>report.pdf\<close>, \<open>scan.png\<close> and \<open>data.csv\<close>), \<open>002_John Smith\<close> (visit folder \<open>1\<close> with a
  \<open>scan.png\<close> that cannot be opened as an image) and \<open>004_Ann Lee\<close> (not readable), a plain
  file \<open>readme.txt\<close>, and the subject list \<open>/data/subjects.txt\<close>, which asks for 001, 002,
  003, 003, 001 and 004.
\<close>

definition example_dirs :: "string list" where
  "example_dirs =
     [''/data'', ''/data/001_Jane  Doe'', ''/data/001_Jane  Doe/1'', ''/data/002_John Smith'',
      ''/data/002_John Smith/1'', ''/data/004_Ann Lee'']"

definition example_files :: "string list" where
  "example_files =
     [''/data/readme.txt'', ''/data/subjects.txt'', ''/data/001_Jane  Doe/1/report.pdf'',
      ''/data/001_Jane  Doe/1/scan.png'', ''/data/001_Jane  Doe/1/data.csv'',
      ''/data/002_John Smith/1/scan.png'']"

definition example_listdir :: "string \<Rightarrow> os_error + string list" where
  "example_listdir p =
     (if p = ''/data'' then Inr [''001_Jane  Doe'', ''readme.txt'', ''002_John Smith'', ''004_Ann Lee'', ''subjects.txt'']
      else if p = ''/data/001_Jane  Doe'' then Inr [''notes'', ''1'']
      else if p = ''/data/001_Jane  Doe/1'' then Inr [''report.pdf'', ''scan.png'', ''data.csv'']
      else if p = ''/data/002_John Smith'' then Inr [''1'']
      else if p = ''/data/002_John Smith/1'' then Inr [''scan.png'']
      else if p = ''/data/004_Ann Lee'' then Inl (Errno 13 ''Permission denied'' p)
      else Inl (Errno 2 ''No such file or directory'' p))"

definition example_world :: world where
  "example_world =
     \<lparr>path_exists = (\<lambda>p. p \<in> set (example_dirs @ example_files)),
      path_isdir = (\<lambda>p. p \<in> set example_dirs),
      listdir = example_listdir,
      read_lines = (\<lambda>p. if p = ''/data/subjects.txt''
                          then Lines [''001'' @ newline, ''002'' @ newline, newline, ''003'' @ newline,
                                      '' 003 '' @ newline, ''001'' @ newline, ''004'']
                          else FileNotFoundError),
      image_to_string = (\<lambda>p config. if p = ''/data/001_Jane  Doe/1/scan.png''
                          then Inr (''Age: 31.2'' @ newline) else Inl (LibraryError ''cannot identify image file'')),
      pdf_pages = (\<lambda>p. if p = ''/data/001_Jane  Doe/1/report.pdf''
                          then Inr [''Age: 25.6'' @ newline @ ''Gender: Bayan'', '' '']
                          else Inl (LibraryError ''cannot open document''))\<rparr>"



text \<open>The same tree with a subject list that asks for 002 only.\<close>

definition example_world_one_subject :: world where
  "example_world_one_subject = example_world\<lparr>read_lines := (\<lambda>p. Lines [''002'' @ newline])\<rparr>"

text \<open>An engine with Tesseract and one without.\<close>

definition engine_with_ocr :: engine where
  "engine_with_ocr = engine_init (Languages [''eng'', ''tur'']) ''--psm 6 -l eng''"

definition engine_without_ocr :: engine where
  "engine_without_ocr = engine_init ProbeRaises ''--psm 6 -l eng''"

section \<open>Facts about trimming and case folding\<close>


lemma all_dropWhile: "(\<forall>x \<in> set (dropWhile P s). P x) \<longleftrightarrow> (\<forall>x \<in> set s. P x)"
  by (induction s) auto

lemma strip_eq_Nil_iff: "strip s = [] \<longleftrightarrow> (\<forall>c \<in> set s. py_isspace c)"
  by (simp add: strip_def lstrip_def rstrip_def dropWhile_eq_Nil_conv all_dropWhile)

lemma blank_join: "(\<forall>c \<in> set (join newline xs). py_isspace c) \<longleftrightarrow> (\<forall>x \<in> set xs. \<forall>c \<in> set x. py_isspace c)"
  by (induction newline xs rule: join.induct) (auto simp: newline_def py_isspace_def)









section \<open>Properties of the value transforms\<close>

text \<open>
  C10. For every value and every transform name outside the recognised ones
  (\<open>"age_round"\<close>, \<open>"gender_turkish"\<close>, \<open>"none"\<close>, the empty name and \<open>None\<close>),
  \<open>transform_value\<close> returns the value as it is: it is not trimmed, it is not replaced
  by \<open>None\<close>, and nothing is raised.
\<close>

theorem transform_value_unrecognised:
  "transform_type \<notin> {Some ''age_round'', Some ''gender_turkish'', Some ''none'', Some [], None}
   \<Longrightarrow> transform_value v transform_type = Inr v"
  by (auto simp: transform_value_def)

theorem transform_value_unrecognised_witness:
  "Some ''round_age'' \<notin> {Some ''age_round'', Some ''gender_turkish'', Some ''none'', Some [], None}
   \<and> transform_value (PStr '' 25.7 '') (Some ''round_age'') = Inr (PStr '' 25.7 '')"
  using transform_value_unrecognised [of "Some ''round_age''" "PStr '' 25.7 ''"] by simp

subsection \<open>The gender transform\<close>










text \<open>The two examples of the specification.\<close>

lemma map_turkish_gender_examples:
  "map_turkish_gender ''BAYAN'' = ''Female''"
  "map_turkish_gender ''unknown_token'' = ''unknown_token''"
  by code_simp+

subsection \<open>Text of a PDF\<close>

lemma extract_pdf_fallback_eq: "extract_pdf_fallback doc = extract_from_pdf doc"
  by (simp add: extract_pdf_fallback_def extract_from_pdf_def)

lemma join_eq_Nil_iff: "join sep xs = [] \<longleftrightarrow> (\<forall>x \<in> set xs. x = []) \<and> (sep = [] \<or> length xs \<le> 1)"
  by (induction sep xs rule: join.induct) auto

lemma extract_from_pdf_pages:
  "extract_from_pdf (Inr pages) =
     (let t = strip (join newline (filter (\<lambda>text. strip text \<noteq> []) pages))
      in if t = [] then None else Some t)"
proof -
  let ?tc = "filter (\<lambda>text. strip text \<noteq> []) pages"
  have nb: "\<forall>x \<in> set ?tc. \<not> (\<forall>c \<in> set x. py_isspace c)"
    by (simp add: strip_eq_Nil_iff)
  show ?thesis
  proof (cases "?tc = []")
    case True
    then show ?thesis by (simp add: extract_from_pdf_def strip_def lstrip_def rstrip_def)
  next
    case False
    then obtain x where "x \<in> set ?tc" by (cases ?tc) auto
    with nb have "\<not> (\<forall>x \<in> set ?tc. \<forall>c \<in> set x. py_isspace c)" by blast
    then have "strip (join newline ?tc) \<noteq> []"
      by (simp only: strip_eq_Nil_iff blank_join not_False_eq_True)
    moreover from this have "join newline ?tc \<noteq> []"
      by (auto simp: strip_def lstrip_def rstrip_def)
    ultimately show ?thesis by (simp add: extract_from_pdf_def Let_def)
  qed
qed





subsection \<open>Age rounding\<close>

lemma round_age_finite:
  "py_float (strip s) = Some (Finite x) \<Longrightarrow>
   round_age s = Inr (Some (if 1 / 2 < x - of_int (py_trunc x) then \<lceil>x\<rceil> else py_trunc x))"
  by (simp add: round_age_def Let_def)

lemma round_age_value_error: "py_float (strip s) = None \<Longrightarrow> round_age s = Inr None"
  by (simp add: round_age_def)

lemma round_age_nan: "py_float (strip s) = Some NaN \<Longrightarrow> round_age s = Inr None"
  by (simp add: round_age_def)

lemma round_age_infinite:
  "py_float (strip s) = Some PosInf \<or> py_float (strip s) = Some NegInf \<Longrightarrow>
   round_age s = Inl (OverflowError ''cannot convert float infinity to integer'')"
  by (auto simp add: round_age_def)

lemma floor_rat_numeral_div: "\<lfloor>(numeral a :: rat) / numeral b\<rfloor> = numeral a div numeral b"
  using floor_divide_of_int_eq [of "numeral a" "numeral b", where ?'a = rat] by simp

lemma ceiling_rat_numeral_div: "\<lceil>(numeral a :: rat) / numeral b\<rceil> = - (- numeral a div numeral b)"
  using floor_divide_of_int_eq [of "- numeral a" "numeral b", where ?'a = rat]
  by (simp add: ceiling_def)

lemmas strip_defs = strip_def lstrip_def rstrip_def py_isspace_def

lemmas parse_defs = py_float_def strip_defs parse_abs_float_def
  lower_def lower_char_def parse_number_def digitpart_def digit_val_def parse_exponent_def
  digits_value_def pow10_def Let_def

lemmas double_defs = to_double_def nearest_double_def pow2_def round_half_even_def Let_def
  floor_rat_numeral_div ceiling_rat_numeral_div

text \<open>The examples of the specification: what \<open>float\<close> reads, the double it gives, and
  the rounded age.\<close>

lemma py_float_25_50: "py_float ''25.50'' = Some (to_double False (51 / 2))"
  by (simp add: parse_defs)

lemma py_float_25_51: "py_float ''25.51'' = Some (to_double False (2551 / 100))"
  by (simp add: parse_defs)

lemma py_float_25_00: "py_float ''25.00'' = Some (to_double False 25)"
  by (simp add: parse_defs)

lemma py_float_abc: "py_float ''abc'' = None"
  by (simp add: parse_defs)

lemma binade_25_50: "binade (51 / 2) = 4"
  by code_simp

lemma binade_25_51: "binade (2551 / 100) = 4"
  by code_simp

lemma binade_25_00: "binade 25 = 4"
  by code_simp

lemma to_double_25_50: "to_double False (51 / 2) = Finite (51 / 2)"
  by (simp add: double_defs binade_25_50)

lemma to_double_25_51: "to_double False (2551 / 100) = Finite (7180426655888835 / 281474976710656)"
  by (simp add: double_defs binade_25_51)

lemma to_double_25_00: "to_double False 25 = Finite 25"
  by (simp add: double_defs binade_25_00)

lemma strip_25_50: "strip ''25.50'' = ''25.50''"
  by (simp add: strip_defs)

lemma strip_25_51: "strip ''25.51'' = ''25.51''"
  by (simp add: strip_defs)

lemma strip_25_00: "strip ''25.00'' = ''25.00''"
  by (simp add: strip_defs)

lemma strip_abc: "strip ''abc'' = ''abc''"
  by (simp add: strip_defs)

lemma round_age_examples:
  "round_age ''25.50'' = Inr (Some 25)"
  "round_age ''25.51'' = Inr (Some 26)"
  "round_age ''25.00'' = Inr (Some 25)"
  "round_age ''abc'' = Inr None"
proof -
  show "round_age ''25.50'' = Inr (Some 25)"
    using round_age_finite [of "''25.50''" "51 / 2"]
    by (simp add: strip_25_50 py_float_25_50 to_double_25_50 py_trunc_def floor_rat_numeral_div)
  show "round_age ''25.51'' = Inr (Some 26)"
    using round_age_finite [of "''25.51''" "7180426655888835 / 281474976710656"]
    by (simp add: strip_25_51 py_float_25_51 to_double_25_51 py_trunc_def
        floor_rat_numeral_div ceiling_rat_numeral_div)
  show "round_age ''25.00'' = Inr (Some 25)"
    using round_age_finite [of "''25.00''" 25]
    by (simp add: strip_25_00 py_float_25_00 to_double_25_00 py_trunc_def)
  show "round_age ''abc'' = Inr None"
    using round_age_value_error [of "''abc''"] by (simp add: strip_abc py_float_abc)
qed

text \<open>A decimal just above one half that the nearest double does not tell from one
  half is not rounded up.\<close>

lemma py_float_near_half: "py_float ''0.50000000000000001'' = Some (to_double False (50000000000000001 / 100000000000000000))"
  by (simp add: parse_defs)

lemma binade_near_half: "binade (50000000000000001 / 100000000000000000) = - 1"
  by code_simp

lemma to_double_near_half: "to_double False (50000000000000001 / 100000000000000000) = Finite (1 / 2)"
  by (simp add: double_defs binade_near_half)

lemma round_age_near_half: "round_age ''0.50000000000000001'' = Inr (Some 0)"
  using round_age_finite [of "''0.50000000000000001''" "1 / 2"]
  by (simp add: strip_defs py_float_near_half [unfolded strip_defs] to_double_near_half py_trunc_def floor_eq_iff)

text \<open>
  C5. The age-rounding transform is to return absent for an input that is not a number,
  and never to raise. On the input \<open>"inf"\<close>, which \<open>float\<close> reads as infinity, it raises
  \<open>OverflowError\<close>.
\<close>

theorem round_age_inf_raises:
  "round_age ''inf'' = Inl (OverflowError ''cannot convert float infinity to integer'')"
  by (simp add: round_age_def parse_defs)

subsection \<open>Pattern extraction\<close>

lemma extract_with_pattern_flags:
  "extract_with_pattern re_search text pattern =
   extract_with_pattern (\<lambda>p t flags. re_search p t {IGNORECASE, MULTILINE}) text pattern"
  by (simp add: extract_with_pattern_def)

lemma extract_with_pattern_group1:
  "re_search pattern text {IGNORECASE, MULTILINE} = Match (Some v # groups) \<Longrightarrow>
   extract_with_pattern re_search text pattern = Inr (Some (strip v))"
  by (simp add: extract_with_pattern_def)

lemma extract_with_pattern_absent:
  "re_search pattern text {IGNORECASE, MULTILINE} = NoMatch \<or>
   re_search pattern text {IGNORECASE, MULTILINE} = Match [] \<or>
   re_search pattern text {IGNORECASE, MULTILINE} = ReError m \<Longrightarrow>
   extract_with_pattern re_search text pattern = Inr None"
  by (auto simp add: extract_with_pattern_def)

lemma extract_with_pattern_group1_unset:
  "re_search pattern text {IGNORECASE, MULTILINE} = Match (None # groups) \<Longrightarrow>
   extract_with_pattern re_search text pattern = Inl (AttributeError ''object has no attribute strip'')"
  by (simp add: extract_with_pattern_def)

text \<open>
  C9. Pattern extraction is to return the trimmed first capture group of the first match,
  or absent. For the pattern \<open>(a)?b\<close> and the text \<open>b\<close>, \<open>re.search\<close> finds a match in
  which group 1 took no part, so \<open>match.groups()\<close> is \<open>(None,)\<close>; there the code raises
  \<open>AttributeError\<close>.
\<close>

theorem extract_with_pattern_unset_group_raises:
  "extract_with_pattern
     (\<lambda>pattern text flags.
        if pattern = ''(a)?b'' \<and> text = ''b'' \<and> flags = {IGNORECASE, MULTILINE}
        then Match [None] else NoMatch)
     ''b'' ''(a)?b'' = Inl (AttributeError ''object has no attribute strip'')"
  by (simp add: extract_with_pattern_def)

subsection \<open>Processing one subject\<close>

lemma os_error_str_nonempty: "os_error_str e \<noteq> []"
  by (cases e) simp

lemma get_file_type_cases:
  "get_file_type p = ''image'' \<or> get_file_type p = ''pdf'' \<or> get_file_type p = ''unknown''"
  by (simp add: get_file_type_def Let_def)

lemma process_single_subject_raised:
  "find_target_files w folder_path target_filename = Inl e \<Longrightarrow>
   process_single_subject eng w sid pname folder_path target_filename =
     (\<lparr>subject_id = sid, patient_name = pname, file_path = [], extracted_text = None,
       extraction_status = ''Failed'', error = Some (exn_str (OSError e))\<rparr>, [])"
  by (simp add: process_single_subject_def)

lemma process_single_subject_not_found:
  "find_target_files w folder_path target_filename = Inr [] \<Longrightarrow>
   process_single_subject eng w sid pname folder_path target_filename =
     (\<lparr>subject_id = sid, patient_name = pname, file_path = [], extracted_text = None,
       extraction_status = ''Failed'',
       error = Some (''Target file '' @ [CHR 39] @ target_filename @ [CHR 39] @ '' not found'')\<rparr>, [])"
  by (simp add: process_single_subject_def)

lemma process_single_subject_unknown:
  "find_target_files w folder_path target_filename = Inr (target_file # others) \<Longrightarrow>
   get_file_type target_file = ''unknown'' \<Longrightarrow>
   process_single_subject eng w sid pname folder_path target_filename =
     (\<lparr>subject_id = sid, patient_name = pname, file_path = target_file, extracted_text = None,
       extraction_status = ''Failed'',
       error = Some (''Unsupported file type: '' @ target_file)\<rparr>, [])"
  by (simp add: process_single_subject_def)

lemma process_single_subject_no_ocr:
  "find_target_files w folder_path target_filename = Inr (target_file # others) \<Longrightarrow>
   get_file_type target_file = ''image'' \<Longrightarrow> \<not> tesseract_available eng \<Longrightarrow>
   process_single_subject eng w sid pname folder_path target_filename =
     (\<lparr>subject_id = sid, patient_name = pname, file_path = target_file, extracted_text = None,
       extraction_status = ''Failed'',
       error = Some ''Tesseract OCR not available for image text extraction''\<rparr>, [])"
  by (simp add: process_single_subject_def)

lemma process_single_subject_extracted:
  assumes "find_target_files w folder_path target_filename = Inr (target_file # others)"
    and "get_file_type target_file \<noteq> ''unknown''"
    and "\<not> (get_file_type target_file = ''image'' \<and> \<not> tesseract_available eng)"
    and "extract_target eng w target_file (get_file_type target_file) = (text, calls)"
  shows "process_single_subject eng w sid pname folder_path target_filename =
     (if text \<noteq> None \<and> text \<noteq> Some [] then
        (\<lparr>subject_id = sid, patient_name = pname, file_path = target_file, extracted_text = text,
          extraction_status = ''Success'', error = None\<rparr>, calls)
      else
        (\<lparr>subject_id = sid, patient_name = pname, file_path = target_file, extracted_text = None,
          extraction_status = ''Failed'', error = Some ''Failed to extract text from file''\<rparr>, calls))"
  using assms by (auto simp add: process_single_subject_def Let_def)

text \<open>Every record is either a success with a text or a failure with a message.\<close>

lemma process_single_subject_well_formed:
  assumes r: "r = fst (process_single_subject eng w sid pname folder_path target_filename)"
  shows "if extraction_status r = ''Success''
         then error r = None \<and> extracted_text r \<noteq> None \<and> extracted_text r \<noteq> Some []
         else extraction_status r = ''Failed'' \<and> extracted_text r = None \<and>
              error r \<noteq> None \<and> error r \<noteq> Some []"
proof (cases "find_target_files w folder_path target_filename")
  case (Inl e)
  then show ?thesis
    by (simp add: r process_single_subject_raised os_error_str_nonempty)
next
  case (Inr target_files)
  show ?thesis
  proof (cases target_files)
    case Nil
    with Inr show ?thesis
      by (simp add: r process_single_subject_not_found)
  next
    case (Cons target_file others)
    note found = Inr [unfolded Cons]
    consider (u) "get_file_type target_file = ''unknown''"
      | (n) "get_file_type target_file = ''image''" "\<not> tesseract_available eng"
      | (x) "get_file_type target_file \<noteq> ''unknown''"
            "\<not> (get_file_type target_file = ''image'' \<and> \<not> tesseract_available eng)"
      by blast
    then show ?thesis
    proof cases
      case u
      then show ?thesis
        using found by (simp add: r process_single_subject_unknown)
    next
      case n
      then show ?thesis
        using found by (simp add: r process_single_subject_no_ocr)
    next
      case x
      obtain extracted calls
        where "extract_target eng w target_file (get_file_type target_file) = (extracted, calls)"
        by (cases "extract_target eng w target_file (get_file_type target_file)")
      from process_single_subject_extracted [OF found x this, of sid pname]
      show ?thesis by (auto simp add: r)
    qed
  qed
qed



subsection \<open>The coordinator\<close>

lemma process_subjects_records:
  assumes "\<forall>futs. mset (as_completed futs) = mset futs"
  shows "mset (fst (process_subjects eng w as_completed subject_folders target_filename)) =
         mset (map (\<lambda>(sid, pname, folder_path).
                      fst (process_single_subject eng w sid pname folder_path target_filename))
                   subject_folders)"
proof -
  let ?futs = "map (\<lambda>(sid, pname, folder_path).
                   (let (result, calls) = process_single_subject eng w sid pname folder_path target_filename
                    in ((sid, pname), Inr result :: py_exn + subject_result, calls)))
                subject_folders"
  have meq: "map collect_future ?futs =
      map (\<lambda>(sid, pname, folder_path).
             fst (process_single_subject eng w sid pname folder_path target_filename)) subject_folders"
    by (auto simp add: collect_future_def split: prod.splits)
  have "mset (map collect_future (as_completed ?futs)) = image_mset collect_future (mset (as_completed ?futs))"
    by (simp only: mset_map)
  also have "\<dots> = image_mset collect_future (mset ?futs)"
    using assms by (simp only:)
  also have "\<dots> = mset (map collect_future ?futs)"
    by (simp only: mset_map)
  finally have "mset (map collect_future (as_completed ?futs)) = mset (map collect_future ?futs)" .
  then show ?thesis
    unfolding process_subjects_def meq by (simp add: Let_def)
qed





subsection \<open>Without the OCR engine\<close>

lemma engine_init_unavailable:
  "text_extractor_init probe tesseract_config = None \<Longrightarrow>
   engine_init probe tesseract_config = \<lparr>text_extractor = None, tesseract_available = False\<rparr>"
  by (simp add: engine_init_def)

lemma engine_init_available:
  "text_extractor_init probe tesseract_config = Some extractor \<Longrightarrow>
   engine_init probe tesseract_config = \<lparr>text_extractor = Some extractor, tesseract_available = True\<rparr>"
  by (simp add: engine_init_def)

lemma extract_target_pdf:
  "extract_target eng w target_file ''pdf'' =
     (extract_from_pdf (pdf_pages w target_file),
      [case text_extractor eng of Some extractor \<Rightarrow> PdfNative target_file | None \<Rightarrow> PdfFallback target_file])"
  by (simp add: extract_target_def extract_text_def extract_pdf_fallback_eq split: option.splits)

lemma process_single_subject_pdf:
  assumes "find_target_files w folder_path target_filename = Inr (target_file # others)"
    and "get_file_type target_file = ''pdf''"
  shows "process_single_subject eng w sid pname folder_path target_filename =
     (if extract_from_pdf (pdf_pages w target_file) \<noteq> None \<and>
         extract_from_pdf (pdf_pages w target_file) \<noteq> Some [] then
        \<lparr>subject_id = sid, patient_name = pname, file_path = target_file,
         extracted_text = extract_from_pdf (pdf_pages w target_file),
         extraction_status = ''Success'', error = None\<rparr>
      else
        \<lparr>subject_id = sid, patient_name = pname, file_path = target_file, extracted_text = None,
         extraction_status = ''Failed'', error = Some ''Failed to extract text from file''\<rparr>,
      [case text_extractor eng of Some extractor \<Rightarrow> PdfNative target_file | None \<Rightarrow> PdfFallback target_file])"
  using process_single_subject_extracted [OF assms(1), of eng "extract_from_pdf (pdf_pages w target_file)"
      "[case text_extractor eng of Some extractor \<Rightarrow> PdfNative target_file | None \<Rightarrow> PdfFallback target_file]"
      sid pname] assms(2)
  by (simp add: extract_target_pdf)

text \<open>
  C4. For every run in which the OCR backend is unavailable (the constructor of the text
  extractor raised), a subject whose target is an image gets a \<open>Failed\<close> record with the
  error \<open>Tesseract OCR not available for image text extraction\<close> and no extraction is
  attempted; a subject whose target is a PDF has extraction attempted through the
  fallback, and its record is the one an engine with OCR would produce.
\<close>

theorem pdf_extraction_without_ocr:
  assumes unavailable: "text_extractor_init probe tesseract_config = None"
    and available: "text_extractor_init probe' tesseract_config' = Some extractor"
    and found: "find_target_files w folder_path target_filename = Inr (target_file # others)"
  shows "(get_file_type target_file = ''image'' \<longrightarrow>
            process_single_subject (engine_init probe tesseract_config) w sid pname folder_path target_filename =
              (\<lparr>subject_id = sid, patient_name = pname, file_path = target_file, extracted_text = None,
                extraction_status = ''Failed'',
                error = Some ''Tesseract OCR not available for image text extraction''\<rparr>, [])) \<and>
         (get_file_type target_file = ''pdf'' \<longrightarrow>
            snd (process_single_subject (engine_init probe tesseract_config) w sid pname folder_path target_filename) =
              [PdfFallback target_file] \<and>
            fst (process_single_subject (engine_init probe tesseract_config) w sid pname folder_path target_filename) =
              fst (process_single_subject (engine_init probe' tesseract_config') w sid pname folder_path target_filename) \<and>
            (extraction_status (fst (process_single_subject (engine_init probe tesseract_config) w sid pname
                 folder_path target_filename)) = ''Success'' \<longleftrightarrow>
               extract_pdf_fallback (pdf_pages w target_file) \<noteq> None))"
proof -
  have img: "get_file_type target_file = ''image'' \<longrightarrow>
      process_single_subject (engine_init probe tesseract_config) w sid pname folder_path target_filename =
        (\<lparr>subject_id = sid, patient_name = pname, file_path = target_file, extracted_text = None,
          extraction_status = ''Failed'',
          error = Some ''Tesseract OCR not available for image text extraction''\<rparr>, [])"
    using process_single_subject_no_ocr [OF found, of "engine_init probe tesseract_config" sid pname]
    by (simp add: engine_init_unavailable [OF unavailable])
  have nonempty: "extract_from_pdf (pdf_pages w target_file) \<noteq> Some []"
  proof (cases "pdf_pages w target_file")
    case (Inl e)
    then show ?thesis by (simp add: extract_from_pdf_def)
  next
    case (Inr pages)
    then show ?thesis by (simp add: extract_from_pdf_pages Let_def)
  qed
  have pdf: "get_file_type target_file = ''pdf'' \<longrightarrow>
      snd (process_single_subject (engine_init probe tesseract_config) w sid pname folder_path target_filename) =
        [PdfFallback target_file] \<and>
      fst (process_single_subject (engine_init probe tesseract_config) w sid pname folder_path target_filename) =
        fst (process_single_subject (engine_init probe' tesseract_config') w sid pname folder_path target_filename) \<and>
      (extraction_status (fst (process_single_subject (engine_init probe tesseract_config) w sid pname
           folder_path target_filename)) = ''Success'' \<longleftrightarrow>
         extract_pdf_fallback (pdf_pages w target_file) \<noteq> None)"
    using nonempty
    by (simp add: process_single_subject_pdf [OF found] engine_init_unavailable [OF unavailable]
        engine_init_available [OF available] extract_pdf_fallback_eq)
  from img pdf show ?thesis by (rule conjI)
qed

theorem pdf_extraction_without_ocr_witness:
  "process_single_subject engine_without_ocr example_world
      ''001'' ''Jane Doe'' ''/data/001_Jane  Doe'' ''scan.png'' =
     (\<lparr>subject_id = ''001'', patient_name = ''Jane Doe'', file_path = ''/data/001_Jane  Doe/1/scan.png'',
       extracted_text = None, extraction_status = ''Failed'',
       error = Some ''Tesseract OCR not available for image text extraction''\<rparr>, []) \<and>
   snd (process_single_subject engine_without_ocr example_world
      ''001'' ''Jane Doe'' ''/data/001_Jane  Doe'' ''report.pdf'') =
     [PdfFallback ''/data/001_Jane  Doe/1/report.pdf''] \<and>
   fst (process_single_subject engine_without_ocr example_world
      ''001'' ''Jane Doe'' ''/data/001_Jane  Doe'' ''report.pdf'') =
   fst (process_single_subject engine_with_ocr example_world
      ''001'' ''Jane Doe'' ''/data/001_Jane  Doe'' ''report.pdf'') \<and>
   extraction_status (fst (process_single_subject engine_without_ocr example_world
      ''001'' ''Jane Doe'' ''/data/001_Jane  Doe'' ''report.pdf'')) = ''Success''"
proof -
  have u: "text_extractor_init ProbeRaises ''--psm 6 -l eng'' = None"
    by (simp add: text_extractor_init_def)
  have a: "text_extractor_init (Languages [''eng'', ''tur'']) ''--psm 6 -l eng'' = Some ''--psm 6 -l eng''"
    by (simp add: text_extractor_init_def)
  have f1: "find_target_files example_world ''/data/001_Jane  Doe'' ''scan.png'' =
      Inr (''/data/001_Jane  Doe/1/scan.png'' # [])"
    by code_simp
  have t1: "get_file_type ''/data/001_Jane  Doe/1/scan.png'' = ''image''"
    by code_simp
  have f2: "find_target_files example_world ''/data/001_Jane  Doe'' ''report.pdf'' =
      Inr (''/data/001_Jane  Doe/1/report.pdf'' # [])"
    by code_simp
  have t2: "get_file_type ''/data/001_Jane  Doe/1/report.pdf'' = ''pdf''"
    by code_simp
  have x2: "extract_pdf_fallback (pdf_pages example_world ''/data/001_Jane  Doe/1/report.pdf'') \<noteq> None"
    by code_simp
  note T1 = pdf_extraction_without_ocr [OF u a f1, of "''001''" "''Jane Doe''", folded engine_without_ocr_def engine_with_ocr_def]
  note T2 = pdf_extraction_without_ocr [OF u a f2, of "''001''" "''Jane Doe''", folded engine_without_ocr_def engine_with_ocr_def]
  from T1 t1 T2 t2 x2 show ?thesis by blast
qed

subsection \<open>The run\<close>

lemma get_subject_folders_empty_list:
  "get_subject_folders w root_folder [] = Inr subject_folders \<Longrightarrow> subject_folders = []"
  by (auto simp add: get_subject_folders_def subject_folder_of_def List.map_filter_def Let_def
      split: if_splits sum.splits prod.splits)


lemma extract_data_list_empty:
  "load_subject_list w subject_list_file = Inr [] \<Longrightarrow>
   extract_data eng w as_completed root_folder subject_list_file target_filename =
     (initial_results\<lparr>errors := [''No subjects found in subject list file'']\<rparr>, [])"
  by (simp add: extract_data_def initial_results_def)


lemma extract_data_no_folders:
  "load_subject_list w subject_list_file = Inr subject_list \<Longrightarrow> subject_list \<noteq> [] \<Longrightarrow>
   get_subject_folders w root_folder subject_list = Inr [] \<Longrightarrow>
   extract_data eng w as_completed root_folder subject_list_file target_filename =
     (initial_results\<lparr>errors := [''No subject folders found. Missing: '' @ join '', '' subject_list],
        missing_subjects := Some subject_list,
        warnings := Some [''Missing '' @ show_nat (length subject_list) @ '' subject folders: '' @
                          join '', '' subject_list]\<rparr>, [])"
  by (simp add: extract_data_def initial_results_def Let_def)

lemma extract_data_folders:
  assumes "load_subject_list w subject_list_file = Inr subject_list"
    and "get_subject_folders w root_folder subject_list = Inr subject_folders"
    and "subject_folders \<noteq> []"
    and "missing = filter (\<lambda>sid. sid \<notin> set (map fst subject_folders)) subject_list"
    and "processed = process_subjects eng w as_completed subject_folders target_filename"
  shows "extract_data eng w as_completed root_folder subject_list_file target_filename =
     (\<lparr>success = True, data = fst processed, total_subjects = length subject_folders,
       processed_subjects = length (fst processed),
       successful_extractions = length (filter has_extracted_data (fst processed)),
       failed_extractions = int (length (fst processed)) -
                            int (length (filter has_extracted_data (fst processed))),
       errors = [],
       missing_subjects = (if missing \<noteq> [] then Some missing else None),
       warnings = (if missing \<noteq> [] then
                     Some [''Missing '' @ show_nat (length missing) @ '' subject folders: '' @
                           join '', '' missing]
                   else None)\<rparr>, snd processed)"
proof -
  have "subject_list \<noteq> []"
    using assms(2,3) get_subject_folders_empty_list by blast
  then show ?thesis
    using assms
    by (simp add: extract_data_def initial_results_def Let_def split: prod.splits)
qed




subsection \<open>Missing subjects\<close>

lemma subject_folder_of_set:
  "set requested = set requested' \<Longrightarrow>
   subject_folder_of w root_folder requested item = subject_folder_of w root_folder requested' item"
  by (auto simp add: subject_folder_of_def Let_def split: prod.splits)

lemma get_subject_folders_remdups:
  "get_subject_folders w root_folder (remdups subject_list) = get_subject_folders w root_folder subject_list"
proof -
  have "subject_folder_of w root_folder (remdups subject_list) = subject_folder_of w root_folder subject_list"
    by (rule ext, rule subject_folder_of_set) simp
  then show ?thesis unfolding get_subject_folders_def by (simp only:)
qed

lemma count_list_filter:
  "count_list (filter P xs) x = (if P x then count_list xs x else 0)"
  by (induction xs) auto

lemma example_subject_list:
  "load_subject_list example_world ''/data/subjects.txt'' =
     Inr [''001'', ''002'', ''003'', ''003'', ''001'', ''004'']"
  by code_simp

lemma example_subject_folders:
  "get_subject_folders example_world ''/data'' [''001'', ''002'', ''003'', ''003'', ''001'', ''004''] =
     Inr [(''001'', ''Jane Doe'', ''/data/001_Jane  Doe''), (''002'', ''John Smith'', ''/data/002_John Smith''),
          (''004'', ''Ann Lee'', ''/data/004_Ann Lee'')]"
  by code_simp

lemma example_missing:
  "filter (\<lambda>sid. sid \<notin> fst ` set [(''001'', ''Jane Doe'', ''/data/001_Jane  Doe''),
        (''002'', ''John Smith'', ''/data/002_John Smith''), (''004'', ''Ann Lee'', ''/data/004_Ann Lee'')])
     [''001'', ''002'', ''003'', ''003'', ''001'', ''004''] = [''003'', ''003'']"
  by code_simp


text \<open>
  C7. For every request list, the missing subjects of a run are the entries of the
  request list whose identifier is not the identifier of a found folder, in request order
  and as often as the request list has them, while the found folders do not depend on how
  often an identifier is requested; so the number of found folders plus the number of
  missing entries is not the number of distinct requested identifiers for every request
  list.
\<close>

theorem missing_subjects_keep_duplicates:
  assumes loaded: "load_subject_list w subject_list_file = Inr subject_list"
    and resolved: "get_subject_folders w root_folder subject_list = Inr subject_folders"
    and missing: "missing = filter (\<lambda>sid. sid \<notin> fst ` set subject_folders) subject_list"
    and run: "run = extract_data eng w as_completed root_folder subject_list_file target_filename"
  shows "missing_subjects (fst run) = (if missing = [] then None else Some missing) \<and>
         subseq missing subject_list \<and>
         (\<forall>sid. count_list missing sid =
                  (if sid \<in> fst ` set subject_folders then 0 else count_list subject_list sid)) \<and>
         get_subject_folders w root_folder (remdups subject_list) = Inr subject_folders \<and>
         total_subjects (fst run) = length subject_folders \<and>
         \<not> (\<forall>(w' :: world) root' requested found.
               get_subject_folders w' root' requested = Inr found \<longrightarrow>
               length found + length (filter (\<lambda>sid. sid \<notin> fst ` set found) requested) =
               length (remdups requested))"
proof -
  have c1: "missing_subjects (fst run) = (if missing = [] then None else Some missing) \<and>
      total_subjects (fst run) = length subject_folders"
  proof (cases "subject_folders = []")
    case True
    show ?thesis
    proof (cases "subject_list = []")
      case empty: True
      with loaded True show ?thesis
        by (simp add: run missing extract_data_list_empty initial_results_def)
    next
      case False
      with loaded resolved True show ?thesis
        by (simp add: run missing extract_data_no_folders initial_results_def)
    qed
  next
    case False
    have m: "missing = filter (\<lambda>sid. sid \<notin> set (map fst subject_folders)) subject_list"
      by (simp add: missing)
    show ?thesis
      using extract_data_folders [OF loaded resolved False m refl, of eng as_completed target_filename]
      by (simp add: run)
  qed
  have c2: "subseq missing subject_list"
    by (simp add: missing)
  have c3: "\<forall>sid. count_list missing sid =
      (if sid \<in> fst ` set subject_folders then 0 else count_list subject_list sid)"
    by (simp add: missing count_list_filter)
  have c4: "get_subject_folders w root_folder (remdups subject_list) = Inr subject_folders"
    by (simp add: get_subject_folders_remdups resolved)
  have c5: "\<not> (\<forall>(w' :: world) root' requested found.
      get_subject_folders w' root' requested = Inr found \<longrightarrow>
      length found + length (filter (\<lambda>sid. sid \<notin> fst ` set found) requested) =
      length (remdups requested))"
  proof
    assume "\<forall>(w' :: world) root' requested found.
      get_subject_folders w' root' requested = Inr found \<longrightarrow>
      length found + length (filter (\<lambda>sid. sid \<notin> fst ` set found) requested) =
      length (remdups requested)"
    from this [rule_format, OF example_subject_folders] show False
      by (simp only: example_missing) simp
  qed
  from c1 c2 c3 c4 c5 show ?thesis by blast
qed

theorem missing_subjects_keep_duplicates_witness:
  "missing_subjects (fst (extract_data engine_with_ocr example_world rev ''/data'' ''/data/subjects.txt'' ''report.pdf'')) =
     Some [''003'', ''003''] \<and>
   total_subjects (fst (extract_data engine_with_ocr example_world rev ''/data'' ''/data/subjects.txt'' ''report.pdf'')) = 3 \<and>
   get_subject_folders example_world ''/data'' (remdups [''001'', ''002'', ''003'', ''003'', ''001'', ''004'']) =
     Inr [(''001'', ''Jane Doe'', ''/data/001_Jane  Doe''), (''002'', ''John Smith'', ''/data/002_John Smith''),
          (''004'', ''Ann Lee'', ''/data/004_Ann Lee'')] \<and>
   count_list [''003'', ''003''] ''003'' = count_list [''001'', ''002'', ''003'', ''003'', ''001'', ''004''] ''003'' \<and>
   count_list [''003'', ''003''] ''001'' = 0"
proof -
  note T = missing_subjects_keep_duplicates [OF example_subject_list example_subject_folders
      example_missing [symmetric] refl, of engine_with_ocr rev "''report.pdf''"]
  have a: "(3::nat) = length [(''001'', ''Jane Doe'', ''/data/001_Jane  Doe''),
      (''002'', ''John Smith'', ''/data/002_John Smith''), (''004'', ''Ann Lee'', ''/data/004_Ann Lee'')]"
    by simp
  from T show ?thesis
    by (simp only: a) simp
qed

subsection \<open>Counting successful extractions\<close>

lemma status_strip: "strip ''Failed'' \<noteq> [] \<and> strip ''Success'' \<noteq> []"
  by (simp add: strip_eq_Nil_iff py_isspace_def)

lemma has_extracted_data_status:
  assumes "extraction_status r = ''Failed'' \<or> extraction_status r = ''Success''"
  shows "has_extracted_data r"
proof -
  have s: "strip (extraction_status r) \<noteq> []" "extraction_status r \<noteq> []"
    using assms status_strip by auto
  have m: "(''extraction_status'', PStr (extraction_status r)) \<in> set (result_items r)"
    by (simp add: result_items_def)
  have k: "''extraction_status'' \<notin> set [''subject_id'', ''name'']"
    by simp
  show ?thesis
    unfolding has_extracted_data_def list_ex_iff
    by (rule bexI [OF _ m]) (simp add: s k)
qed

lemma process_subjects_has_extracted_data:
  assumes "\<forall>futs. mset (as_completed futs) = mset futs"
    and "r \<in> set (fst (process_subjects eng w as_completed subject_folders target_filename))"
  shows "has_extracted_data r"
proof -
  from assms(2) have "r \<in># mset (fst (process_subjects eng w as_completed subject_folders target_filename))"
    by simp
  then have "r \<in> set (map (\<lambda>(sid, pname, folder_path).
      fst (process_single_subject eng w sid pname folder_path target_filename)) subject_folders)"
    by (simp only: process_subjects_records [OF assms(1)] set_mset_mset)
  then obtain sid pname folder_path
    where "r = fst (process_single_subject eng w sid pname folder_path target_filename)"
    by auto
  from process_single_subject_well_formed [OF this]
  have "extraction_status r = ''Failed'' \<or> extraction_status r = ''Success''"
    by (auto split: if_splits)
  then show ?thesis by (rule has_extracted_data_status)
qed

text \<open>Whatever the subjects' outcomes, the run counts every record as successful.\<close>

lemma extract_data_counts_every_record:
  assumes completed: "\<forall>futs. mset (as_completed futs) = mset futs"
    and "load_subject_list w subject_list_file = Inr subject_list"
    and "get_subject_folders w root_folder subject_list = Inr subject_folders"
    and "subject_folders \<noteq> []"
    and "run = extract_data eng w as_completed root_folder subject_list_file target_filename"
  shows "successful_extractions (fst run) = processed_subjects (fst run) \<and> failed_extractions (fst run) = 0"
proof -
  have "filter has_extracted_data (fst (process_subjects eng w as_completed subject_folders target_filename)) =
        fst (process_subjects eng w as_completed subject_folders target_filename)"
    using process_subjects_has_extracted_data [OF completed] by (simp add: filter_id_conv)
  then show ?thesis
    using extract_data_folders [OF assms(2,3,4) refl refl, of eng as_completed target_filename]
    by (simp add: assms(5))
qed

lemma process_record_without_text:
  "extracted_text r = None \<Longrightarrow>
   process_record re_search rules r = Inr [(''Subject ID'', PStr (subject_id r)), (''Name'', PStr (patient_name r))]"
  by (simp add: process_record_def)

lemma example_one_subject_run:
  "fst (extract_data engine_with_ocr example_world_one_subject rev ''/data'' ''/data/subjects.txt'' ''report.pdf'') =
     \<lparr>success = True,
      data = [\<lparr>subject_id = ''002'', patient_name = ''John Smith'', file_path = [], extracted_text = None,
               extraction_status = ''Failed'',
               error = Some (''Target file '' @ [CHR 39] @ ''report.pdf'' @ [CHR 39] @ '' not found'')\<rparr>],
      total_subjects = 1, processed_subjects = 1, successful_extractions = 1, failed_extractions = 0,
      errors = [], missing_subjects = None, warnings = None\<rparr>"
  by code_simp

text \<open>
  C1. The run is to count as successful the records in which a rule field has a value,
  and as failed the others. For a root with the one requested folder \<open>002_John Smith\<close>,
  whose visit folder has no \<open>report.pdf\<close>, the one record has status \<open>Failed\<close> and no text,
  so applying any rules gives a row with the identity columns only, which the summary
  sheet counts as without data; the run reports one successful and no failed extraction.
\<close>

theorem extract_data_counts_failed_subject_as_successful:
  "map extraction_status (data (fst (extract_data engine_with_ocr example_world_one_subject rev
      ''/data'' ''/data/subjects.txt'' ''report.pdf''))) = [''Failed''] \<and>
   processed_subjects (fst (extract_data engine_with_ocr example_world_one_subject rev
      ''/data'' ''/data/subjects.txt'' ''report.pdf'')) = 1 \<and>
   successful_extractions (fst (extract_data engine_with_ocr example_world_one_subject rev
      ''/data'' ''/data/subjects.txt'' ''report.pdf'')) = 1 \<and>
   failed_extractions (fst (extract_data engine_with_ocr example_world_one_subject rev
      ''/data'' ''/data/subjects.txt'' ''report.pdf'')) = 0 \<and>
   process_extracted_data re_search rules (data (fst (extract_data engine_with_ocr example_world_one_subject rev
      ''/data'' ''/data/subjects.txt'' ''report.pdf''))) =
     Inr [[(''Subject ID'', PStr ''002''), (''Name'', PStr ''John Smith'')]] \<and>
   summary_successful_extractions [[(''Subject ID'', PStr ''002''), (''Name'', PStr ''John Smith'')]] = 0"
  by (simp add: example_one_subject_run process_record_without_text
      summary_successful_extractions_def has_data_def)

end
